theory Spec2Isabelle
  imports Complex_Main
begin

section \<open>Floating icons: the physics integrator and the pointer-drag controller\<close>

text \<open>
  A shallow embedding of \<^verbatim>\<open>src/script.js\<close>. JavaScript numbers are modelled as
  exact reals, and the decimal constants of the source (0.4, 0.6, 0.98, 16.7) are the
  exact rationals they denote; infinities and NaN are outside the model. Where a
  property depends on the rounding of double arithmetic, the integrator is given a
  second time with the rounding written after each operation (\<open>stepBodyFl\<close>,
  \<open>stepFl\<close>, with \<open>roundDouble\<close> for round-to-nearest, ties-to-even on a 53-bit
  significand); with the identity as rounding it is the exact integrator.
  The mutable globals \<^verbatim>\<open>bodies\<close>, \<^verbatim>\<open>lastTimestamp\<close> and \<^verbatim>\<open>activeBody\<close> are the
  fields of one state record which every handler takes and returns.
\<close>

subsection \<open>Data model\<close>

text \<open>
  The DOM element of an icon. The only property the program touches is
  \<^verbatim>\<open>style.transform\<close>, always set to \<^verbatim>\<open>translate(${x}px, ${y}px)\<close>; the model keeps
  the two numbers of that string. Each body is built in \<^verbatim>\<open>init\<close> around its own
  element of the \<^verbatim>\<open>querySelectorAll\<close> result, so no two bodies share an element and
  the element is stored inside the body.
\<close>

record element =
  transform :: "real \<times> real"

text \<open>
  The body object of lines 26-40. \<^verbatim>\<open>lastPointerPos\<close> is the object \<^verbatim>\<open>{x, y}\<close>,
  modelled as a pair (first component x, second component y).
\<close>

record body =
  el :: element
  x :: real
  y :: real
  vx :: real
  vy :: real
  width :: real
  height :: real
  dragging :: bool
  dragOffsetX :: real
  dragOffsetY :: real
  lastPointerPos :: "real \<times> real"
  vxPointer :: real
  vyPointer :: real

text \<open>
  The globals. \<^verbatim>\<open>lastTimestamp\<close> is \<^verbatim>\<open>null\<close> (\<open>None\<close>) or a number.
  \<^verbatim>\<open>activeBody\<close> is \<^verbatim>\<open>null\<close> or a reference to one of the objects in \<^verbatim>\<open>bodies\<close>;
  since \<^verbatim>\<open>bodies\<close> only ever grows by \<^verbatim>\<open>push\<close>, the reference is the index of that
  object in the array, and a write through the reference is a list update at that
  index. \<open>handlersAttached\<close> records whether \<^verbatim>\<open>doDrag\<close> and \<^verbatim>\<open>endDrag\<close> are
  registered on \<^verbatim>\<open>document\<close> (lines 70-73 and 107-110; registering the same function
  twice has no further effect).
\<close>

record state =
  bodies :: "body list"
  lastTimestamp :: "real option"
  activeBody :: "nat option"
  handlersAttached :: bool

text \<open>
  A mouse or touch event, as far as \<^verbatim>\<open>getPointerPos\<close> reads it. A mouse event has no
  \<^verbatim>\<open>touches\<close> property, which the test \<^verbatim>\<open>e.touches && e.touches.length > 0\<close> treats like
  an empty list; both are \<open>[]\<close> here. Each touch is its \<^verbatim>\<open>(clientX, clientY)\<close>.
\<close>

record event =
  touches :: "(real \<times> real) list"
  clientX :: real
  clientY :: real

definition gravity :: real where
  "gravity = 0.4"

definition bounceFactor :: real where
  "bounceFactor = 0.6"

definition friction :: real where
  "friction = 0.98"

definition initialState :: state where
  "initialState =
     \<lparr>bodies = [], lastTimestamp = None, activeBody = None, handlersAttached = False\<rparr>"

subsection \<open>Initialisation (lines 17-49)\<close>

text \<open>
  One icon together with the three values \<^verbatim>\<open>Math.random()\<close> returns for it, in the
  order of the calls: for \<^verbatim>\<open>startX\<close>, for \<^verbatim>\<open>startY\<close> and for \<^verbatim>\<open>vx\<close>.
\<close>

type_synonym icon = "element \<times> real \<times> real \<times> real"

definition newBody :: "real \<Rightarrow> icon \<Rightarrow> body" where
  "newBody innerWidth ic =
     (case ic of (icon, r1, r2, r3) \<Rightarrow>
        let rectWidth = 80;
            rectHeight = 80;
            startX = r1 * (innerWidth - rectWidth);
            startY = - r2 * 200 - rectHeight
        in \<lparr>el = icon\<lparr>transform := (startX, startY)\<rparr>,
            x = startX,
            y = startY,
            vx = (r3 - 0.5) * 1.0,
            vy = 0,
            width = rectWidth,
            height = rectHeight,
            dragging = False,
            dragOffsetX = 0,
            dragOffsetY = 0,
            lastPointerPos = (0, 0),
            vxPointer = 0,
            vyPointer = 0\<rparr>)"

definition init :: "real \<Rightarrow> icon list \<Rightarrow> state \<Rightarrow> state" where
  "init innerWidth icons s = s\<lparr>bodies := bodies s @ map (newBody innerWidth) icons\<rparr>"

subsection \<open>The pointer-drag controller (lines 51-112)\<close>

definition getPointerPos :: "event \<Rightarrow> real \<times> real" where
  "getPointerPos e = (case touches e of t # _ \<Rightarrow> t | [] \<Rightarrow> (clientX e, clientY e))"

text \<open>
  \<^verbatim>\<open>startDrag(e, body)\<close>, with the body given by its index. The listener is registered
  (lines 44-45) only for a body that has just been pushed, so every call the program
  receives has \<open>i < length (bodies s)\<close>. \<^verbatim>\<open>e.preventDefault()\<close> acts on the event only
  and is left out, here and in \<open>doDrag\<close>.
\<close>

definition startDrag :: "event \<Rightarrow> nat \<Rightarrow> state \<Rightarrow> state" where
  "startDrag e i s =
     (let b = bodies s ! i;
          pos = getPointerPos e;
          b' = b\<lparr>dragging := True,
                 dragOffsetX := fst pos - x b,
                 dragOffsetY := snd pos - y b,
                 vx := 0,
                 vy := 0,
                 vxPointer := 0,
                 vyPointer := 0,
                 lastPointerPos := pos\<rparr>
      in s\<lparr>bodies := (bodies s)[i := b'], handlersAttached := True, activeBody := Some i\<rparr>)"

definition doDrag :: "event \<Rightarrow> state \<Rightarrow> state" where
  "doDrag e s =
     (case activeBody s of
        None \<Rightarrow> s
      | Some i \<Rightarrow>
          let b = bodies s ! i;
              pos = getPointerPos e
          in if dragging b
             then s\<lparr>bodies := (bodies s)
                    [i := b\<lparr>x := fst pos - dragOffsetX b,
                             y := snd pos - dragOffsetY b,
                             vxPointer := fst pos - fst (lastPointerPos b),
                             vyPointer := snd pos - snd (lastPointerPos b),
                             lastPointerPos := pos\<rparr>]\<rparr>
             else s)"

definition endDrag :: "event \<Rightarrow> state \<Rightarrow> state" where
  "endDrag e s =
     (case activeBody s of
        None \<Rightarrow> s
      | Some i \<Rightarrow>
          let b = bodies s ! i
          in if dragging b
             then s\<lparr>bodies := (bodies s)
                    [i := b\<lparr>dragging := False, vx := vxPointer b, vy := vyPointer b\<rparr>],
                    activeBody := None,
                    handlersAttached := False\<rparr>
             else s)"

subsection \<open>The integrator (lines 114-151)\<close>

text \<open>
  The callback of \<^verbatim>\<open>bodies.forEach\<close> is split at its comments: gravity and position
  update (lines 122-126), left and right collision (127-134), top collision (135-139),
  bottom collision (140-145), and the write of the transform (147-148), which is
  outside the test of \<^verbatim>\<open>body.dragging\<close>.
\<close>

definition integrate :: "real \<Rightarrow> body \<Rightarrow> body" where
  "integrate dt b =
     (let b1 = b\<lparr>vy := vy b + gravity * dt\<rparr>;
          b2 = b1\<lparr>x := x b1 + vx b1 * dt\<rparr>
      in b2\<lparr>y := y b2 + vy b2 * dt\<rparr>)"

definition collideSides :: "real \<Rightarrow> body \<Rightarrow> body" where
  "collideSides maxX b =
     (if x b < 0 then b\<lparr>x := 0, vx := - vx b * bounceFactor\<rparr>
      else if x b + width b > maxX then b\<lparr>x := maxX - width b, vx := - vx b * bounceFactor\<rparr>
      else b)"

definition collideTop :: "body \<Rightarrow> body" where
  "collideTop b = (if y b < 0 then b\<lparr>y := 0, vy := - vy b * bounceFactor\<rparr> else b)"

definition collideBottom :: "real \<Rightarrow> body \<Rightarrow> body" where
  "collideBottom maxY b =
     (if y b + height b > maxY
      then b\<lparr>y := maxY - height b, vy := - vy b * bounceFactor, vx := vx b * friction\<rparr>
      else b)"

definition applyTransform :: "body \<Rightarrow> body" where
  "applyTransform b = b\<lparr>el := (el b)\<lparr>transform := (x b, y b)\<rparr>\<rparr>"

definition stepBody :: "real \<Rightarrow> real \<Rightarrow> real \<Rightarrow> body \<Rightarrow> body" where
  "stepBody dt maxX maxY b =
     applyTransform
       (if \<not> dragging b
        then collideBottom maxY (collideTop (collideSides maxX (integrate dt b)))
        else b)"

text \<open>
  \<^verbatim>\<open>step(timestamp)\<close>; \<open>innerWidth\<close> and \<open>innerHeight\<close> are what \<^verbatim>\<open>window\<close> reports
  during the call. \<^verbatim>\<open>!lastTimestamp\<close> holds for \<^verbatim>\<open>null\<close> and for the number 0.
  The closing \<^verbatim>\<open>requestAnimationFrame(step)\<close> asks the browser for the next call and
  changes no variable of the program.
\<close>

definition step :: "real \<Rightarrow> real \<Rightarrow> real \<Rightarrow> state \<Rightarrow> state" where
  "step timestamp innerWidth innerHeight s =
     (let last = (case lastTimestamp s of
                    None \<Rightarrow> timestamp
                  | Some t \<Rightarrow> if t = 0 then timestamp else t);
          dt = (timestamp - last) / 16.7;
          maxX = innerWidth;
          maxY = innerHeight
      in s\<lparr>lastTimestamp := Some timestamp,
            bodies := map (stepBody dt maxX maxY) (bodies s)\<rparr>)"

text \<open>
  The elapsed time that \<open>step\<close> computes at lines 115-116, in units of 16.7 ms.
\<close>

definition frameDt :: "state \<Rightarrow> real \<Rightarrow> real" where
  "frameDt s timestamp =
     (timestamp - (case lastTimestamp s of
                     None \<Rightarrow> timestamp
                   | Some t \<Rightarrow> if t = 0 then timestamp else t)) / 16.7"

subsection \<open>Events in the order the browser delivers them\<close>

text \<open>
  The browser runs one callback at a time. \<open>PointerDown i e\<close> is a \<^verbatim>\<open>mousedown\<close> or
  \<^verbatim>\<open>touchstart\<close> on the icon of body \<open>i\<close>; \<open>PointerMove\<close> and \<open>PointerUp\<close> are the
  \<^verbatim>\<open>document\<close> events, which reach \<open>doDrag\<close> and \<open>endDrag\<close> only while these are
  registered; \<open>Frame t w h\<close> is an animation frame at timestamp \<open>t\<close> with the
  window \<open>w\<close> by \<open>h\<close>.
\<close>

datatype input =
    PointerDown nat event
  | PointerMove event
  | PointerUp event
  | Frame real real real

fun handle :: "state \<Rightarrow> input \<Rightarrow> state" where
  "handle s (PointerDown i e) = startDrag e i s"
| "handle s (PointerMove e) = (if handlersAttached s then doDrag e s else s)"
| "handle s (PointerUp e) = (if handlersAttached s then endDrag e s else s)"
| "handle s (Frame t w h) = step t w h s"

definition run :: "state \<Rightarrow> input list \<Rightarrow> state" where
  "run s ins = foldl handle s ins"

subsection \<open>Repeated frames, pointer trails and sample inputs\<close>




text \<open>
  The pointer positions of a sequence of inputs, oldest first: the position of each
  pointer-down and each pointer-move, as \<open>getPointerPos\<close> reads it.
\<close>

fun pointerTrail :: "input list \<Rightarrow> (real \<times> real) list" where
  "pointerTrail [] = []"
| "pointerTrail (PointerDown i e # ins) = getPointerPos e # pointerTrail ins"
| "pointerTrail (PointerMove e # ins) = getPointerPos e # pointerTrail ins"
| "pointerTrail (PointerUp e # ins) = pointerTrail ins"
| "pointerTrail (Frame t w h # ins) = pointerTrail ins"

fun isFrame :: "input \<Rightarrow> bool" where
  "isFrame (Frame t w h) = True"
| "isFrame (PointerDown i e) = False"
| "isFrame (PointerMove e) = False"
| "isFrame (PointerUp e) = False"

fun isMove :: "input \<Rightarrow> bool" where
  "isMove (PointerMove e) = True"
| "isMove (PointerDown i e) = False"
| "isMove (PointerUp e) = False"
| "isMove (Frame t w h) = False"

fun isMoveOrFrame :: "input \<Rightarrow> bool" where
  "isMoveOrFrame (PointerMove e) = True"
| "isMoveOrFrame (Frame t w h) = True"
| "isMoveOrFrame (PointerDown i e) = False"
| "isMoveOrFrame (PointerUp e) = False"

text \<open>
  What holds of the state while body \<open>i\<close> is held by the pointer and \<open>ps\<close> are the
  pointer positions of the drag so far.
\<close>

definition held :: "nat \<Rightarrow> (real \<times> real) list \<Rightarrow> state \<Rightarrow> bool" where
  "held i ps s \<longleftrightarrow>
     activeBody s = Some i \<and> handlersAttached s \<and> i < length (bodies s)
     \<and> dragging (bodies s ! i)
     \<and> lastPointerPos (bodies s ! i) = last ps
     \<and> vxPointer (bodies s ! i)
         = (if 2 \<le> length ps then fst (last ps) - fst (last (butlast ps)) else 0)
     \<and> vyPointer (bodies s ! i)
         = (if 2 \<le> length ps then snd (last ps) - snd (last (butlast ps)) else 0)"

definition mouseEvent :: "real \<Rightarrow> real \<Rightarrow> event" where
  "mouseEvent px py = \<lparr>touches = [], clientX = px, clientY = py\<rparr>"

definition touchEvent :: "real \<Rightarrow> real \<Rightarrow> event" where
  "touchEvent px py = \<lparr>touches = [(px, py)], clientX = 0, clientY = 0\<rparr>"

text \<open>
  A \<^verbatim>\<open>touchend\<close> after the last finger has left: \<^verbatim>\<open>touches\<close> is empty. A touch event
  has no client coordinates of its own; they are 0 here and in \<open>touchEvent\<close>, where
  they are never read. \<open>endDrag\<close> reads no position at all.
\<close>

definition touchEndEvent :: event where
  "touchEndEvent = \<lparr>touches = [], clientX = 0, clientY = 0\<rparr>"

text \<open>
  The \<^verbatim>\<open>touchstart\<close> of a second finger at (10, 10) while a first finger rests at
  (470, 10): \<^verbatim>\<open>touches\<close> lists both, the older one first.
\<close>

definition secondFingerDown :: event where
  "secondFingerDown = \<lparr>touches = [(470, 10), (10, 10)], clientX = 0, clientY = 0\<rparr>"

definition blankIcon :: element where
  "blankIcon = \<lparr>transform = (0, 0)\<rparr>"

text \<open>A free body of the size \<open>init\<close> gives, at a chosen position and velocity.\<close>

definition freeBody :: "real \<Rightarrow> real \<Rightarrow> real \<Rightarrow> real \<Rightarrow> body" where
  "freeBody px py pvx pvy =
     \<lparr>el = blankIcon, x = px, y = py, vx = pvx, vy = pvy, width = 80, height = 80,
      dragging = False, dragOffsetX = 0, dragOffsetY = 0, lastPointerPos = (0, 0),
      vxPointer = 0, vyPointer = 0\<rparr>"

text \<open>
  Two icons in a window 1000 wide, with random draws (0.5, 0.5, 0.5) and (0, 0, 0.75):
  the bodies start at (460, -180) and (0, -80). \<open>settled\<close> is the state after the first
  frame in a window of 1000 by 800. In \<open>draggedIcons\<close> body 0 has then been picked up
  at (470, 10) and moved to the pointer position (300, 200); in \<open>draggedOut\<close> it has
  been moved to (-300, 2000), outside the window.
\<close>

definition twoIcons :: state where
  "twoIcons = init 1000 [(blankIcon, 0.5, 0.5, 0.5), (blankIcon, 0, 0, 0.75)] initialState"

definition settled :: state where
  "settled = step 5000 1000 800 twoIcons"

definition draggedIcons :: state where
  "draggedIcons =
     run settled [PointerDown 0 (mouseEvent 470 10), PointerMove (mouseEvent 300 200)]"

definition draggedOut :: state where
  "draggedOut =
     run settled [PointerDown 0 (mouseEvent 470 10), PointerMove (mouseEvent (- 300) 2000)]"


subsection \<open>The integrator in double arithmetic\<close>

text \<open>
  The numbers of the program are IEEE 754 doubles, and each arithmetic operation
  returns the exact result rounded to a double. \<open>roundDouble\<close> is that rounding
  (to nearest, ties to even, 53 bits of significand) for results in the normal range;
  overflow and subnormal numbers are not modelled. The functions below repeat the
  integrator with the rounding \<open>rnd\<close> written after each operation of the source, and
  with the constants rounded as the decimal literals of the source are. Negation is
  exact. With the identity for \<open>rnd\<close> they are the functions above.
\<close>

definition roundHalfEven :: "real \<Rightarrow> int" where
  "roundHalfEven v =
     (let f = \<lfloor>v\<rfloor>
      in if v - of_int f < 1 / 2 then f
         else if v - of_int f > 1 / 2 then f + 1
         else if even f then f else f + 1)"

definition roundDouble :: "real \<Rightarrow> real" where
  "roundDouble v =
     (if v = 0 then 0
      else let ulp = 2 powr (of_int \<lfloor>log 2 \<bar>v\<bar>\<rfloor> - 52)
           in of_int (roundHalfEven (v / ulp)) * ulp)"

definition integrateFl :: "(real \<Rightarrow> real) \<Rightarrow> real \<Rightarrow> body \<Rightarrow> body" where
  "integrateFl rnd dt b =
     (let b1 = b\<lparr>vy := rnd (vy b + rnd (rnd gravity * dt))\<rparr>;
          b2 = b1\<lparr>x := rnd (x b1 + rnd (vx b1 * dt))\<rparr>
      in b2\<lparr>y := rnd (y b2 + rnd (vy b2 * dt))\<rparr>)"

definition collideSidesFl :: "(real \<Rightarrow> real) \<Rightarrow> real \<Rightarrow> body \<Rightarrow> body" where
  "collideSidesFl rnd maxX b =
     (if x b < 0 then b\<lparr>x := 0, vx := rnd (- vx b * rnd bounceFactor)\<rparr>
      else if rnd (x b + width b) > maxX
           then b\<lparr>x := rnd (maxX - width b), vx := rnd (- vx b * rnd bounceFactor)\<rparr>
      else b)"

definition collideTopFl :: "(real \<Rightarrow> real) \<Rightarrow> body \<Rightarrow> body" where
  "collideTopFl rnd b =
     (if y b < 0 then b\<lparr>y := 0, vy := rnd (- vy b * rnd bounceFactor)\<rparr> else b)"

definition collideBottomFl :: "(real \<Rightarrow> real) \<Rightarrow> real \<Rightarrow> body \<Rightarrow> body" where
  "collideBottomFl rnd maxY b =
     (if rnd (y b + height b) > maxY
      then b\<lparr>y := rnd (maxY - height b),
             vy := rnd (- vy b * rnd bounceFactor),
             vx := rnd (vx b * rnd friction)\<rparr>
      else b)"

definition stepBodyFl :: "(real \<Rightarrow> real) \<Rightarrow> real \<Rightarrow> real \<Rightarrow> real \<Rightarrow> body \<Rightarrow> body" where
  "stepBodyFl rnd dt maxX maxY b =
     applyTransform
       (if \<not> dragging b
        then collideBottomFl rnd maxY
               (collideTopFl rnd (collideSidesFl rnd maxX (integrateFl rnd dt b)))
        else b)"

definition stepFl :: "(real \<Rightarrow> real) \<Rightarrow> real \<Rightarrow> real \<Rightarrow> real \<Rightarrow> state \<Rightarrow> state" where
  "stepFl rnd timestamp innerWidth innerHeight s =
     (let last = (case lastTimestamp s of
                    None \<Rightarrow> timestamp
                  | Some t \<Rightarrow> if t = 0 then timestamp else t);
          dt = rnd (rnd (timestamp - last) / rnd 16.7);
          maxX = innerWidth;
          maxY = innerHeight
      in s\<lparr>lastTimestamp := Some timestamp,
            bodies := map (stepBodyFl rnd dt maxX maxY) (bodies s)\<rparr>)"

text \<open>
  A free body at \<open>x = 1019\<close> moving right with the velocity that the literal
  \<^verbatim>\<open>1.0000000000001\<close> denotes, the double \<open>1 + 450 / 2 ^ 52\<close>.
\<close>

definition edgeBody :: body where
  "edgeBody = freeBody 1019 300 (1 + 450 / 2 ^ 52) 0"

section \<open>Properties\<close>

subsection \<open>Facts about one frame\<close>

lemmas phase_defs = integrate_def collideSides_def collideTop_def collideBottom_def
  applyTransform_def Let_def

lemma step_length: "length (bodies (step t w h s)) = length (bodies s)"
  by (simp add: step_def Let_def)

lemma step_activeBody: "activeBody (step t w h s) = activeBody s"
  by (simp add: step_def Let_def)

lemma step_handlersAttached: "handlersAttached (step t w h s) = handlersAttached s"
  by (simp add: step_def Let_def)

text \<open>Every body gets the per-body callback, all with the same elapsed time.\<close>

lemma step_nth_ex:
  "i < length (bodies s) \<Longrightarrow> \<exists>dt. bodies (step t w h s) ! i = stepBody dt w h (bodies s ! i)"
  by (auto simp add: step_def Let_def)

lemma step_nth:
  "lastTimestamp s = Some t0 \<Longrightarrow> t0 \<noteq> 0 \<Longrightarrow> i < length (bodies s) \<Longrightarrow>
   bodies (step t w h s) ! i = stepBody ((t - t0) / 16.7) w h (bodies s ! i)"
  by (simp add: step_def Let_def)

lemma step_first_nth:
  "lastTimestamp s = None \<Longrightarrow> i < length (bodies s) \<Longrightarrow>
   bodies (step t w h s) ! i = stepBody 0 w h (bodies s ! i)"
  by (simp add: step_def Let_def)

lemma stepBody_dragging:
  "dragging b \<Longrightarrow> stepBody dt w h b = applyTransform b"
  by (simp add: stepBody_def)



lemma stepBody_vx_zero: "vx b = 0 \<Longrightarrow> vx (stepBody dt w h b) = 0"
  by (simp add: stepBody_def phase_defs)

subsection \<open>The sample states, evaluated\<close>

lemma twoIcons_eq:
  "twoIcons =
     \<lparr>bodies =
        [\<lparr>el = \<lparr>transform = (460, - 180)\<rparr>, x = 460, y = - 180, vx = 0, vy = 0,
           width = 80, height = 80, dragging = False, dragOffsetX = 0,
           dragOffsetY = 0, lastPointerPos = (0, 0), vxPointer = 0, vyPointer = 0\<rparr>,
         \<lparr>el = \<lparr>transform = (0, - 80)\<rparr>, x = 0, y = - 80, vx = 1 / 4, vy = 0,
           width = 80, height = 80, dragging = False, dragOffsetX = 0,
           dragOffsetY = 0, lastPointerPos = (0, 0), vxPointer = 0, vyPointer = 0\<rparr>],
      lastTimestamp = None, activeBody = None, handlersAttached = False\<rparr>"
  by (simp add: twoIcons_def init_def initialState_def newBody_def blankIcon_def Let_def)

lemma settled_eq:
  "settled =
     \<lparr>bodies =
        [\<lparr>el = \<lparr>transform = (460, 0)\<rparr>, x = 460, y = 0, vx = 0, vy = 0,
           width = 80, height = 80, dragging = False, dragOffsetX = 0,
           dragOffsetY = 0, lastPointerPos = (0, 0), vxPointer = 0, vyPointer = 0\<rparr>,
         \<lparr>el = \<lparr>transform = (0, 0)\<rparr>, x = 0, y = 0, vx = 1 / 4, vy = 0,
           width = 80, height = 80, dragging = False, dragOffsetX = 0,
           dragOffsetY = 0, lastPointerPos = (0, 0), vxPointer = 0, vyPointer = 0\<rparr>],
      lastTimestamp = Some 5000, activeBody = None, handlersAttached = False\<rparr>"
  by (simp add: settled_def twoIcons_eq step_def stepBody_def phase_defs
      gravity_def bounceFactor_def friction_def)

lemma draggedIcons_eq:
  "draggedIcons =
     \<lparr>bodies =
        [\<lparr>el = \<lparr>transform = (460, 0)\<rparr>, x = 290, y = 190, vx = 0, vy = 0,
           width = 80, height = 80, dragging = True, dragOffsetX = 10,
           dragOffsetY = 10, lastPointerPos = (300, 200), vxPointer = - 170,
           vyPointer = 190\<rparr>,
         \<lparr>el = \<lparr>transform = (0, 0)\<rparr>, x = 0, y = 0, vx = 1 / 4, vy = 0,
           width = 80, height = 80, dragging = False, dragOffsetX = 0,
           dragOffsetY = 0, lastPointerPos = (0, 0), vxPointer = 0, vyPointer = 0\<rparr>],
      lastTimestamp = Some 5000, activeBody = Some 0, handlersAttached = True\<rparr>"
  by (simp add: draggedIcons_def settled_eq run_def startDrag_def doDrag_def
      getPointerPos_def mouseEvent_def Let_def)

lemma draggedOut_eq:
  "draggedOut =
     \<lparr>bodies =
        [\<lparr>el = \<lparr>transform = (460, 0)\<rparr>, x = - 310, y = 1990, vx = 0, vy = 0,
           width = 80, height = 80, dragging = True, dragOffsetX = 10,
           dragOffsetY = 10, lastPointerPos = (- 300, 2000), vxPointer = - 770,
           vyPointer = 1990\<rparr>,
         \<lparr>el = \<lparr>transform = (0, 0)\<rparr>, x = 0, y = 0, vx = 1 / 4, vy = 0,
           width = 80, height = 80, dragging = False, dragOffsetX = 0,
           dragOffsetY = 0, lastPointerPos = (0, 0), vxPointer = 0, vyPointer = 0\<rparr>],
      lastTimestamp = Some 5000, activeBody = Some 0, handlersAttached = True\<rparr>"
  by (simp add: draggedOut_def settled_eq run_def startDrag_def doDrag_def
      getPointerPos_def mouseEvent_def Let_def)

subsection \<open>The first frame\<close>

text \<open>
  C1, as stated, fails. With no previous timestamp the elapsed time is 0, but the
  collision tests still run: a body that \<open>init\<close> has just placed above the window, at
  (460, -180), is at (460, 0) after the first call of \<open>step\<close>.
\<close>

theorem first_frame_jump_counterexample:
  "lastTimestamp twoIcons = None
   \<and> (x (bodies twoIcons ! 0), y (bodies twoIcons ! 0)) = (460, - 180)
   \<and> (x (bodies (step 5000 1000 800 twoIcons) ! 0),
       y (bodies (step 5000 1000 800 twoIcons) ! 0)) = (460, 0)"
  by (simp add: twoIcons_eq step_def stepBody_def phase_defs
      gravity_def bounceFactor_def friction_def)

text \<open>
  C1, amended. On the first frame after initialisation (no previous timestamp) the
  elapsed time is 0 and nothing is integrated: the position of every body after the
  first call of \<open>step\<close> is its position before, clamped into the window by the
  collision tests, and unchanged if the body is being dragged. No velocity and no
  constant enters. So a body inside the window keeps its position, and a body that
  \<open>init\<close> has placed above the window keeps its \<open>x\<close> and goes to \<open>y = 0\<close>.
\<close>

theorem first_frame_clamps_only:
  assumes "lastTimestamp s = None"
    and "i < length (bodies s)"
  shows "x (bodies (step t w h s) ! i)
           = (if dragging (bodies s ! i) then x (bodies s ! i)
              else if x (bodies s ! i) < 0 then 0
              else if x (bodies s ! i) + width (bodies s ! i) > w
                   then w - width (bodies s ! i)
              else x (bodies s ! i))
       \<and> y (bodies (step t w h s) ! i)
           = (if dragging (bodies s ! i) then y (bodies s ! i)
              else if (if y (bodies s ! i) < 0 then 0 else y (bodies s ! i))
                        + height (bodies s ! i) > h
                   then h - height (bodies s ! i)
              else if y (bodies s ! i) < 0 then 0
              else y (bodies s ! i))"
proof -
  have "bodies (step t w h s) ! i = stepBody 0 w h (bodies s ! i)"
    using assms by (rule step_first_nth)
  then show ?thesis
    by (simp add: stepBody_def phase_defs)
qed

theorem first_frame_clamps_only_witness:
  "lastTimestamp twoIcons = None
   \<and> 0 < length (bodies twoIcons)
   \<and> \<not> dragging (bodies twoIcons ! 0)
   \<and> (x (bodies twoIcons ! 0), y (bodies twoIcons ! 0)) = (460, - 180)
   \<and> x (bodies (step 5000 1000 800 twoIcons) ! 0) = 460
   \<and> y (bodies (step 5000 1000 800 twoIcons) ! 0) = 0"
proof -
  have h1: "lastTimestamp twoIcons = None"
    by (simp add: twoIcons_eq)
  have h2: "0 < length (bodies twoIcons)"
    by (simp add: twoIcons_eq)
  have b: "bodies twoIcons ! 0
      = \<lparr>el = \<lparr>transform = (460, - 180)\<rparr>, x = 460, y = - 180, vx = 0, vy = 0,
         width = 80, height = 80, dragging = False, dragOffsetX = 0,
         dragOffsetY = 0, lastPointerPos = (0, 0), vxPointer = 0, vyPointer = 0\<rparr>"
    by (simp add: twoIcons_eq)
  show ?thesis
    using h1 h2 first_frame_clamps_only [OF h1 h2, of 5000 1000 800]
    by (simp add: b)
qed

subsection \<open>Containment\<close>

lemmas phaseFl_defs = integrateFl_def collideSidesFl_def collideTopFl_def
  collideBottomFl_def applyTransform_def Let_def

text \<open>Without rounding the functions in double arithmetic are the functions over the reals.\<close>

lemma stepBodyFl_exact: "stepBodyFl (\<lambda>v. v) dt maxX maxY b = stepBody dt maxX maxY b"
  by (simp add: stepBodyFl_def stepBody_def phaseFl_defs phase_defs)

lemma stepFl_exact: "stepFl (\<lambda>v. v) t w h s = step t w h s"
  by (simp add: stepFl_def step_def Let_def stepBodyFl_exact [abs_def])

lemma stepFl_nth_ex:
  "i < length (bodies s) \<Longrightarrow>
   \<exists>dt. bodies (stepFl rnd t w h s) ! i = stepBodyFl rnd dt w h (bodies s ! i)"
  by (auto simp add: stepFl_def Let_def)

lemma stepBodyFl_size:
  "width (stepBodyFl rnd dt w h b) = width b \<and> height (stepBodyFl rnd dt w h b) = height b"
  by (simp add: stepBodyFl_def phaseFl_defs)

lemma stepBodyFl_x:
  "\<not> dragging b \<Longrightarrow>
   x (stepBodyFl rnd dt w h b) = x (collideSidesFl rnd w (integrateFl rnd dt b))"
  by (simp add: stepBodyFl_def collideTopFl_def collideBottomFl_def applyTransform_def)

lemma stepBodyFl_contained:
  assumes "\<not> dragging b" and "width b \<le> w" and "height b \<le> h"
    and "rnd (width b) = width b" and "rnd (w - width b) = w - width b" and "rnd w = w"
    and "rnd (height b) = height b" and "rnd (h - height b) = h - height b" and "rnd h = h"
  shows "0 \<le> x (stepBodyFl rnd dt w h b)"
    and "rnd (x (stepBodyFl rnd dt w h b) + width b) \<le> w"
    and "0 \<le> y (stepBodyFl rnd dt w h b)"
    and "rnd (y (stepBodyFl rnd dt w h b) + height b) \<le> h"
  using assms by (simp_all add: stepBodyFl_def phaseFl_defs)

text \<open>The rounding of a positive number, by the power of two below it.\<close>

lemma roundDouble_zero: "roundDouble 0 = 0"
  by (simp add: roundDouble_def)

lemma roundDouble_binade:
  assumes "2 ^ k \<le> v" and "v < 2 ^ Suc k"
  shows "roundDouble v = of_int (roundHalfEven (v * 2 ^ 52 / 2 ^ k)) * 2 ^ k / 2 ^ 52"
proof -
  have pos: "0 < v"
    using assms(1) by (meson less_le_trans zero_less_numeral zero_less_power)
  have "\<lfloor>log 2 v\<rfloor> = int k"
    using pos assms by (simp add: floor_log_eq_powr_iff powr_realpow powr_add)
  then have u: "(2 :: real) powr (of_int \<lfloor>log 2 \<bar>v\<bar>\<rfloor> - 52) = 2 ^ k / 2 ^ 52"
    using pos by (simp add: powr_diff powr_realpow)
  have "roundDouble v = of_int (roundHalfEven (v / (2 ^ k / 2 ^ 52))) * (2 ^ k / 2 ^ 52)"
    unfolding roundDouble_def Let_def u using pos by simp
  then show ?thesis
    by simp
qed

lemma roundHalfEven_int: "roundHalfEven (of_int n) = n"
  by (simp add: roundHalfEven_def)

text \<open>The relative error of a rounding is at most \<open>2 ^ -53\<close>.\<close>

lemma roundHalfEven_error: "\<bar>of_int (roundHalfEven r) - r\<bar> \<le> 1 / 2"
proof -
  have "of_int \<lfloor>r\<rfloor> \<le> r" "r < of_int \<lfloor>r\<rfloor> + 1"
    by linarith+
  then show ?thesis
    by (auto simp add: roundHalfEven_def Let_def)
qed

lemma roundDouble_error: "\<bar>roundDouble v - v\<bar> \<le> \<bar>v\<bar> / 2 ^ 53"
proof (cases "v = 0")
  case True
  then show ?thesis by (simp add: roundDouble_def)
next
  case False
  define ulp :: real where "ulp = 2 powr (of_int \<lfloor>log 2 \<bar>v\<bar>\<rfloor> - 52)"
  have upos: "0 < ulp"
    by (simp add: ulp_def)
  have "(2 :: real) powr of_int \<lfloor>log 2 \<bar>v\<bar>\<rfloor> \<le> 2 powr log 2 \<bar>v\<bar>"
    by (rule powr_mono) simp_all
  also have "\<dots> = \<bar>v\<bar>"
    using False by simp
  finally have "ulp \<le> \<bar>v\<bar> / 2 ^ 52"
    by (simp add: ulp_def powr_diff)
  then have half: "ulp * (1 / 2) \<le> \<bar>v\<bar> / 2 ^ 53"
    by simp
  have "roundDouble v - v = (of_int (roundHalfEven (v / ulp)) - v / ulp) * ulp"
    using False upos by (simp add: roundDouble_def Let_def ulp_def [symmetric] algebra_simps)
  then have "\<bar>roundDouble v - v\<bar> = \<bar>of_int (roundHalfEven (v / ulp)) - v / ulp\<bar> * ulp"
    using upos by (simp add: abs_mult)
  also have "\<dots> \<le> 1 / 2 * ulp"
    using roundHalfEven_error [of "v / ulp"] upos by (intro mult_right_mono) simp_all
  finally show ?thesis
    using half by simp
qed

lemma rounded_bound:
  fixes rnd :: "real \<Rightarrow> real"
  assumes "\<bar>rnd v - v\<bar> \<le> eps * \<bar>v\<bar>" and "0 \<le> v" and "rnd v \<le> w"
  shows "(1 - eps) * v \<le> w"
proof -
  have "v - eps * v \<le> rnd v"
    using assms(1,2) by simp
  then show ?thesis
    using assms(3) by (simp add: algebra_simps)
qed

text \<open>Whole numbers of pixels are doubles.\<close>

lemma roundDouble_sizes:
  "roundDouble 80 = 80" "roundDouble 720 = 720" "roundDouble 800 = 800"
  "roundDouble 1020 = 1020" "roundDouble 1100 = 1100"
proof -
  have "roundDouble 80 = of_int (roundHalfEven (of_int (80 * 2 ^ 46))) * 2 ^ 6 / 2 ^ 52"
    using roundDouble_binade [of 6 80] by simp
  then show "roundDouble 80 = 80"
    unfolding roundHalfEven_int by simp
  have "roundDouble 720 = of_int (roundHalfEven (of_int (720 * 2 ^ 43))) * 2 ^ 9 / 2 ^ 52"
    using roundDouble_binade [of 9 720] by simp
  then show "roundDouble 720 = 720"
    unfolding roundHalfEven_int by simp
  have "roundDouble 800 = of_int (roundHalfEven (of_int (800 * 2 ^ 43))) * 2 ^ 9 / 2 ^ 52"
    using roundDouble_binade [of 9 800] by simp
  then show "roundDouble 800 = 800"
    unfolding roundHalfEven_int by simp
  have "roundDouble 1020 = of_int (roundHalfEven (of_int (1020 * 2 ^ 43))) * 2 ^ 9 / 2 ^ 52"
    using roundDouble_binade [of 9 1020] by simp
  then show "roundDouble 1020 = 1020"
    unfolding roundHalfEven_int by simp
  have "roundDouble 1100 = of_int (roundHalfEven (of_int (1100 * 2 ^ 42))) * 2 ^ 10 / 2 ^ 52"
    using roundDouble_binade [of 10 1100] by simp
  then show "roundDouble 1100 = 1100"
    unfolding roundHalfEven_int by simp
qed

lemma edgeBody_rounding:
  "roundDouble ((1 + 450 / 2 ^ 52) * 1) = 1 + 450 / 2 ^ 52"
  "roundDouble (1019 + (1 + 450 / 2 ^ 52)) = 1020 + 1 / 2 ^ 43"
  "roundDouble (1020 + 1 / 2 ^ 43 + 80) = 1100"
proof -
  have "roundDouble ((1 + 450 / 2 ^ 52) * 1)
        = of_int (roundHalfEven ((1 + 450 / 2 ^ 52) * 1 * 2 ^ 52 / 2 ^ 0)) * 2 ^ 0 / 2 ^ 52"
    by (rule roundDouble_binade) simp_all
  also have "(1 + 450 / 2 ^ 52) * 1 * 2 ^ 52 / 2 ^ 0 = (of_int 4503599627370946 :: real)"
    by simp
  finally show "roundDouble ((1 + 450 / 2 ^ 52) * 1) = 1 + 450 / 2 ^ 52"
    unfolding roundHalfEven_int by simp
  have "roundDouble (1019 + (1 + 450 / 2 ^ 52))
        = of_int (roundHalfEven ((1019 + (1 + 450 / 2 ^ 52)) * 2 ^ 52 / 2 ^ 9)) * 2 ^ 9 / 2 ^ 52"
    by (rule roundDouble_binade) simp_all
  also have "(1019 + (1 + 450 / 2 ^ 52)) * 2 ^ 52 / 2 ^ 9
             = (8972014882652160 + 225 / 256 :: real)"
    by simp
  also have "roundHalfEven (8972014882652160 + 225 / 256) = 8972014882652161"
    by (simp add: roundHalfEven_def Let_def)
  finally show "roundDouble (1019 + (1 + 450 / 2 ^ 52)) = 1020 + 1 / 2 ^ 43"
    by simp
  have "roundDouble (1020 + 1 / 2 ^ 43 + 80)
        = of_int (roundHalfEven ((1020 + 1 / 2 ^ 43 + 80) * 2 ^ 52 / 2 ^ 10)) * 2 ^ 10 / 2 ^ 52"
    by (rule roundDouble_binade) simp_all
  also have "(1020 + 1 / 2 ^ 43 + 80) * 2 ^ 52 / 2 ^ 10 = (4837851162214400 + 1 / 2 :: real)"
    by simp
  also have "roundHalfEven (4837851162214400 + 1 / 2) = 4837851162214400"
    by (simp add: roundHalfEven_def Let_def)
  finally show "roundDouble (1020 + 1 / 2 ^ 43 + 80) = 1100"
    by simp
qed

lemma edgeBody_step_x:
  "x (stepBodyFl roundDouble 1 1100 800 edgeBody) = 1020 + 1 / 2 ^ 43"
proof -
  let ?c = "integrateFl roundDouble 1 edgeBody"
  have nd: "\<not> dragging edgeBody"
    by (simp add: edgeBody_def freeBody_def)
  have "x ?c = roundDouble (1019 + roundDouble ((1 + 450 / 2 ^ 52) * 1))"
    by (simp add: integrateFl_def edgeBody_def freeBody_def Let_def)
  then have xc: "x ?c = 1020 + 1 / 2 ^ 43"
    unfolding edgeBody_rounding .
  have wc: "width ?c = 80"
    by (simp add: integrateFl_def edgeBody_def freeBody_def Let_def)
  have "x (collideSidesFl roundDouble 1100 ?c)
        = (if x ?c < 0 then 0
           else if roundDouble (x ?c + width ?c) > 1100 then roundDouble (1100 - width ?c)
           else x ?c)"
    by (simp add: collideSidesFl_def)
  then have "x (collideSidesFl roundDouble 1100 ?c) = 1020 + 1 / 2 ^ 43"
    unfolding xc wc edgeBody_rounding by simp
  then show ?thesis
    using stepBodyFl_x [OF nd, of roundDouble 1 1100 800] by simp
qed

text \<open>
  C3, as stated, fails. The test of line 131 compares the rounded sum
  \<open>x + width\<close> with the width of the window. A free body 80 wide that moves from
  \<open>x = 1019\<close> by \<open>vx = 1 + 450 / 2 ^ 52\<close> in a window 1100 wide arrives at
  \<open>x = 1020 + 1 / 2 ^ 43\<close>; the sum \<open>x + 80\<close> rounds to 1100, which is not greater
  than 1100, so the body is not clamped and \<open>x\<close> stays above \<open>1100 - 80\<close>.
\<close>

theorem rounded_sum_counterexample:
  "\<not> dragging edgeBody
   \<and> width edgeBody \<le> 1100
   \<and> height edgeBody \<le> 800
   \<and> x (stepBodyFl roundDouble 1 1100 800 edgeBody) = 1020 + 1 / 2 ^ 43
   \<and> width (stepBodyFl roundDouble 1 1100 800 edgeBody) = 80
   \<and> \<not> x (stepBodyFl roundDouble 1 1100 800 edgeBody)
         \<le> 1100 - width (stepBodyFl roundDouble 1 1100 800 edgeBody)"
proof -
  have "\<not> dragging edgeBody" "width edgeBody \<le> 1100" "height edgeBody \<le> 800"
    "width (stepBodyFl roundDouble 1 1100 800 edgeBody) = 80"
    by (simp_all add: stepBodyFl_size edgeBody_def freeBody_def)
  then show ?thesis
    unfolding edgeBody_step_x by simp
qed

text \<open>
  C3, amended. Let the sizes of the body and of the window be doubles whose
  differences \<open>innerWidth - width\<close> and \<open>innerHeight - height\<close> are doubles too, as
  they are for whole numbers of pixels, and let \<open>eps\<close> bound the relative error of
  a rounding (\<open>2 ^ -53\<close> for doubles, 0 for exact arithmetic). After a frame, every
  body that is not being dragged and is no larger than the window has \<open>0 \<le> x\<close> and
  \<open>0 \<le> y\<close>; the rounded sums that the code itself tests are within the window,
  \<open>rnd (x + width) \<le> innerWidth\<close> and \<open>rnd (y + height) \<le> innerHeight\<close>; and
  \<open>(1 - eps) * (x + width) \<le> innerWidth\<close> and
  \<open>(1 - eps) * (y + height) \<le> innerHeight\<close>. So \<open>x \<le> innerWidth - width\<close> and
  \<open>y \<le> innerHeight - height\<close> hold up to one rounding, and exactly when nothing is
  rounded.
\<close>

theorem step_contains_up_to_rounding:
  assumes "i < length (bodies s)"
    and "\<not> dragging (bodies s ! i)"
    and "width (bodies s ! i) \<le> w"
    and "height (bodies s ! i) \<le> h"
    and "0 \<le> width (bodies s ! i)"
    and "0 \<le> height (bodies s ! i)"
    and "rnd (width (bodies s ! i)) = width (bodies s ! i)"
    and "rnd (w - width (bodies s ! i)) = w - width (bodies s ! i)"
    and "rnd w = w"
    and "rnd (height (bodies s ! i)) = height (bodies s ! i)"
    and "rnd (h - height (bodies s ! i)) = h - height (bodies s ! i)"
    and "rnd h = h"
    and "\<forall>v. \<bar>rnd v - v\<bar> \<le> eps * \<bar>v\<bar>"
  shows "0 \<le> x (bodies (stepFl rnd t w h s) ! i)
       \<and> rnd (x (bodies (stepFl rnd t w h s) ! i) + width (bodies (stepFl rnd t w h s) ! i))
           \<le> w
       \<and> (1 - eps)
           * (x (bodies (stepFl rnd t w h s) ! i) + width (bodies (stepFl rnd t w h s) ! i))
           \<le> w
       \<and> 0 \<le> y (bodies (stepFl rnd t w h s) ! i)
       \<and> rnd (y (bodies (stepFl rnd t w h s) ! i) + height (bodies (stepFl rnd t w h s) ! i))
           \<le> h
       \<and> (1 - eps)
           * (y (bodies (stepFl rnd t w h s) ! i) + height (bodies (stepFl rnd t w h s) ! i))
           \<le> h"
proof -
  let ?b = "bodies s ! i"
  obtain dt where b': "bodies (stepFl rnd t w h s) ! i = stepBodyFl rnd dt w h ?b"
    using stepFl_nth_ex [OF assms(1)] by blast
  let ?b' = "stepBodyFl rnd dt w h ?b"
  note c = stepBodyFl_contained [OF assms(2,3,4) assms(7-12), of dt]
  have e: "\<bar>rnd v - v\<bar> \<le> eps * \<bar>v\<bar>" for v
    using assms(13) by simp
  have "0 \<le> x ?b' + width ?b"
    using c(1) assms(5) by simp
  with e [of "x ?b' + width ?b"] have "(1 - eps) * (x ?b' + width ?b) \<le> w"
    using c(2) by (rule rounded_bound)
  moreover have "0 \<le> y ?b' + height ?b"
    using c(3) assms(6) by simp
  with e [of "y ?b' + height ?b"] have "(1 - eps) * (y ?b' + height ?b) \<le> h"
    using c(4) by (rule rounded_bound)
  ultimately show ?thesis
    using c b' by (simp add: stepBodyFl_size)
qed

theorem step_contains_up_to_rounding_witness:
  "0 < length (bodies twoIcons)
   \<and> \<not> dragging (bodies twoIcons ! 0)
   \<and> width (bodies twoIcons ! 0) \<le> 1100
   \<and> height (bodies twoIcons ! 0) \<le> 800
   \<and> 0 \<le> width (bodies twoIcons ! 0)
   \<and> 0 \<le> height (bodies twoIcons ! 0)
   \<and> roundDouble (width (bodies twoIcons ! 0)) = width (bodies twoIcons ! 0)
   \<and> roundDouble (1100 - width (bodies twoIcons ! 0)) = 1100 - width (bodies twoIcons ! 0)
   \<and> roundDouble 1100 = 1100
   \<and> roundDouble (height (bodies twoIcons ! 0)) = height (bodies twoIcons ! 0)
   \<and> roundDouble (800 - height (bodies twoIcons ! 0)) = 800 - height (bodies twoIcons ! 0)
   \<and> roundDouble 800 = 800
   \<and> (\<forall>v. \<bar>roundDouble v - v\<bar> \<le> 1 / 2 ^ 53 * \<bar>v\<bar>)
   \<and> 0 \<le> x (bodies (stepFl roundDouble 5000 1100 800 twoIcons) ! 0)
   \<and> roundDouble (x (bodies (stepFl roundDouble 5000 1100 800 twoIcons) ! 0)
                   + width (bodies (stepFl roundDouble 5000 1100 800 twoIcons) ! 0)) \<le> 1100
   \<and> (1 - 1 / 2 ^ 53)
       * (x (bodies (stepFl roundDouble 5000 1100 800 twoIcons) ! 0)
          + width (bodies (stepFl roundDouble 5000 1100 800 twoIcons) ! 0)) \<le> 1100
   \<and> 0 \<le> y (bodies (stepFl roundDouble 5000 1100 800 twoIcons) ! 0)
   \<and> roundDouble (y (bodies (stepFl roundDouble 5000 1100 800 twoIcons) ! 0)
                   + height (bodies (stepFl roundDouble 5000 1100 800 twoIcons) ! 0)) \<le> 800
   \<and> (1 - 1 / 2 ^ 53)
       * (y (bodies (stepFl roundDouble 5000 1100 800 twoIcons) ! 0)
          + height (bodies (stepFl roundDouble 5000 1100 800 twoIcons) ! 0)) \<le> 800"
proof -
  have b: "width (bodies twoIcons ! 0) = 80" "height (bodies twoIcons ! 0) = 80"
    by (simp_all add: twoIcons_eq)
  have h1: "0 < length (bodies twoIcons)" by (simp add: twoIcons_eq)
  have h2: "\<not> dragging (bodies twoIcons ! 0)" by (simp add: twoIcons_eq)
  have h3: "width (bodies twoIcons ! 0) \<le> 1100" by (simp add: b)
  have h4: "height (bodies twoIcons ! 0) \<le> 800" by (simp add: b)
  have p1: "0 \<le> width (bodies twoIcons ! 0)" by (simp add: b)
  have p2: "0 \<le> height (bodies twoIcons ! 0)" by (simp add: b)
  have h5: "roundDouble (width (bodies twoIcons ! 0)) = width (bodies twoIcons ! 0)"
    unfolding b by (rule roundDouble_sizes)
  have h6: "roundDouble (1100 - width (bodies twoIcons ! 0)) = 1100 - width (bodies twoIcons ! 0)"
    unfolding b using roundDouble_sizes(4) by simp
  have h7: "roundDouble 1100 = 1100"
    by (rule roundDouble_sizes)
  have h8: "roundDouble (height (bodies twoIcons ! 0)) = height (bodies twoIcons ! 0)"
    unfolding b by (rule roundDouble_sizes)
  have h9: "roundDouble (800 - height (bodies twoIcons ! 0)) = 800 - height (bodies twoIcons ! 0)"
    unfolding b using roundDouble_sizes(2) by simp
  have h10: "roundDouble 800 = 800"
    by (rule roundDouble_sizes)
  have h11: "\<forall>v. \<bar>roundDouble v - v\<bar> \<le> 1 / 2 ^ 53 * \<bar>v\<bar>"
    using roundDouble_error by simp
  show ?thesis
    using h1 h2 h3 h4 p1 p2 h5 h6 h7 h8 h9 h10 h11
      step_contains_up_to_rounding [OF h1 h2 h3 h4 p1 p2 h5 h6 h7 h8 h9 h10 h11, of 5000]
    by blast
qed

subsection \<open>Bodies under the pointer\<close>

text \<open>
  C7. A frame applies neither gravity nor clamping to a body that is being dragged:
  its position and velocity are the same after the frame, wherever the body is.
\<close>

theorem step_bypasses_dragging:
  assumes "i < length (bodies s)"
    and "dragging (bodies s ! i)"
  shows "x (bodies (step t w h s) ! i) = x (bodies s ! i)
       \<and> y (bodies (step t w h s) ! i) = y (bodies s ! i)
       \<and> vx (bodies (step t w h s) ! i) = vx (bodies s ! i)
       \<and> vy (bodies (step t w h s) ! i) = vy (bodies s ! i)"
proof -
  obtain dt where "bodies (step t w h s) ! i = stepBody dt w h (bodies s ! i)"
    using step_nth_ex [OF assms(1)] by blast
  then show ?thesis
    using assms(2) by (simp add: stepBody_dragging applyTransform_def)
qed

theorem step_bypasses_dragging_witness:
  "0 < length (bodies draggedOut)
   \<and> dragging (bodies draggedOut ! 0)
   \<and> x (bodies (step 5016.7 1000 800 draggedOut) ! 0) = - 310
   \<and> y (bodies (step 5016.7 1000 800 draggedOut) ! 0) = 1990
   \<and> vx (bodies (step 5016.7 1000 800 draggedOut) ! 0) = 0
   \<and> vy (bodies (step 5016.7 1000 800 draggedOut) ! 0) = 0"
proof -
  have h1: "0 < length (bodies draggedOut)" by (simp add: draggedOut_eq)
  have h2: "dragging (bodies draggedOut ! 0)" by (simp add: draggedOut_eq)
  have "bodies draggedOut ! 0
      = \<lparr>el = \<lparr>transform = (460, 0)\<rparr>, x = - 310, y = 1990, vx = 0, vy = 0,
         width = 80, height = 80, dragging = True, dragOffsetX = 10,
         dragOffsetY = 10, lastPointerPos = (- 300, 2000), vxPointer = - 770,
         vyPointer = 1990\<rparr>"
    by (simp add: draggedOut_eq)
  then show ?thesis
    using h1 h2 step_bypasses_dragging [OF h1 h2, of "5016.7" 1000 800] by simp
qed

text \<open>
  C4, as stated, fails. The write of the transform is outside the test of
  \<open>dragging\<close>: a dragged body whose element still shows (460, 0) has its element
  set to the body's position (290, 190) by the next frame.
\<close>

theorem dragging_transform_written_counterexample:
  "dragging (bodies draggedIcons ! 0)
   \<and> transform (el (bodies draggedIcons ! 0)) = (460, 0)
   \<and> transform (el (bodies (step 5016.7 1000 800 draggedIcons) ! 0)) = (290, 190)"
  by (simp add: draggedIcons_eq step_def stepBody_def applyTransform_def)

text \<open>
  C4, amended. For a body that is being dragged a frame skips gravity, integration and
  collision, but not the write to the visual element: the frame changes nothing of the
  body except the transform of its element, which becomes the body's \<open>(x, y)\<close>.
\<close>

theorem step_writes_dragging_transform:
  assumes "i < length (bodies s)"
    and "dragging (bodies s ! i)"
  shows "bodies (step t w h s) ! i
         = (bodies s ! i)
             \<lparr>el := (el (bodies s ! i))\<lparr>transform := (x (bodies s ! i), y (bodies s ! i))\<rparr>\<rparr>"
proof -
  obtain dt where "bodies (step t w h s) ! i = stepBody dt w h (bodies s ! i)"
    using step_nth_ex [OF assms(1)] by blast
  then show ?thesis
    using assms(2) by (simp add: stepBody_dragging applyTransform_def)
qed

theorem step_writes_dragging_transform_witness:
  "0 < length (bodies draggedIcons)
   \<and> dragging (bodies draggedIcons ! 0)
   \<and> bodies (step 5016.7 1000 800 draggedIcons) ! 0
       = \<lparr>el = \<lparr>transform = (290, 190)\<rparr>, x = 290, y = 190, vx = 0, vy = 0,
          width = 80, height = 80, dragging = True, dragOffsetX = 10,
          dragOffsetY = 10, lastPointerPos = (300, 200), vxPointer = - 170,
          vyPointer = 190\<rparr>"
proof -
  have h1: "0 < length (bodies draggedIcons)" by (simp add: draggedIcons_eq)
  have h2: "dragging (bodies draggedIcons ! 0)" by (simp add: draggedIcons_eq)
  have "bodies draggedIcons ! 0
      = \<lparr>el = \<lparr>transform = (460, 0)\<rparr>, x = 290, y = 190, vx = 0, vy = 0,
         width = 80, height = 80, dragging = True, dragOffsetX = 10,
         dragOffsetY = 10, lastPointerPos = (300, 200), vxPointer = - 170,
         vyPointer = 190\<rparr>"
    by (simp add: draggedIcons_eq)
  then show ?thesis
    using h1 h2 step_writes_dragging_transform [OF h1 h2, of "5016.7" 1000 800] by simp
qed

subsection \<open>Collisions and friction\<close>

text \<open>
  C8, as stated, fails. A body that reaches the left wall and the top edge in the same
  step bounces off the wall without touching the bottom edge, and the top branch
  reflects its \<open>vy\<close>: from (1, 1) with velocity (-5, -5), \<open>vy\<close> is -4.6 after gravity
  and 2.76 after the collisions.
\<close>

theorem wall_and_top_bounce_counterexample:
  "\<not> dragging (freeBody 1 1 (- 5) (- 5))
   \<and> x (integrate 1 (freeBody 1 1 (- 5) (- 5))) < 0
   \<and> \<not> y (collideTop (collideSides 1000 (integrate 1 (freeBody 1 1 (- 5) (- 5)))))
         + height (collideTop (collideSides 1000 (integrate 1 (freeBody 1 1 (- 5) (- 5)))))
         > 800
   \<and> vy (integrate 1 (freeBody 1 1 (- 5) (- 5))) = - 4.6
   \<and> vy (stepBody 1 1000 800 (freeBody 1 1 (- 5) (- 5))) = 2.76"
  by (simp add: freeBody_def stepBody_def phase_defs gravity_def bounceFactor_def friction_def)

text \<open>
  C8, amended. In one integration step of a body that is not being dragged, the left
  and right collision leaves \<open>vy\<close> as it is; \<open>vx\<close> after the step is \<open>vx\<close> times -0.6
  if the body crossed the left or right wall, times 0.98 if the bottom branch ran, and
  nothing else, so the friction factor is applied exactly when the bottom branch runs
  and a wall bounce without bottom contact gives \<open>- vx * 0.6\<close>; \<open>vy\<close> after the step
  is \<open>vy + gravity * dt\<close> times -0.6 for the top branch and times -0.6 for the bottom
  branch, so the collisions leave it unchanged when the body touches neither the top
  nor the bottom edge.
\<close>

theorem friction_only_on_bottom:
  assumes "\<not> dragging b"
  shows "vy (collideSides maxX (integrate dt b)) = vy (integrate dt b)
       \<and> vx (stepBody dt maxX maxY b)
           = vx b
             * (if x (integrate dt b) < 0 \<or> x (integrate dt b) + width b > maxX
                then - bounceFactor else 1)
             * (if y (collideTop (collideSides maxX (integrate dt b))) + height b > maxY
                then friction else 1)
       \<and> vy (stepBody dt maxX maxY b)
           = (vy b + gravity * dt)
             * (if y (integrate dt b) < 0 then - bounceFactor else 1)
             * (if y (collideTop (collideSides maxX (integrate dt b))) + height b > maxY
                then - bounceFactor else 1)"
proof -
  have "vy (collideSides maxX (integrate dt b)) = vy (integrate dt b)"
    by (simp add: collideSides_def)
  moreover have "vx (stepBody dt maxX maxY b)
           = vx b
             * (if x (integrate dt b) < 0 \<or> x (integrate dt b) + width b > maxX
                then - bounceFactor else 1)
             * (if y (collideTop (collideSides maxX (integrate dt b))) + height b > maxY
                then friction else 1)"
    using assms by (simp add: stepBody_def phase_defs)
  moreover have "vy (stepBody dt maxX maxY b)
           = (vy b + gravity * dt)
             * (if y (integrate dt b) < 0 then - bounceFactor else 1)
             * (if y (collideTop (collideSides maxX (integrate dt b))) + height b > maxY
                then - bounceFactor else 1)"
    using assms by (simp add: stepBody_def phase_defs algebra_simps)
  ultimately show ?thesis by simp
qed

theorem friction_only_on_bottom_witness:
  "\<not> dragging (freeBody 1 300 (- 5) 2)
   \<and> x (integrate 1 (freeBody 1 300 (- 5) 2)) < 0
   \<and> \<not> y (integrate 1 (freeBody 1 300 (- 5) 2)) < 0
   \<and> \<not> y (collideTop (collideSides 1000 (integrate 1 (freeBody 1 300 (- 5) 2)))) + 80 > 800
   \<and> vx (stepBody 1 1000 800 (freeBody 1 300 (- 5) 2)) = 3
   \<and> vy (stepBody 1 1000 800 (freeBody 1 300 (- 5) 2)) = 2.4
   \<and> y (collideTop (collideSides 1000 (integrate 1 (freeBody 500 719 2 1)))) + 80 > 800
   \<and> vx (stepBody 1 1000 800 (freeBody 500 719 2 1)) = 2 * 0.98
   \<and> vy (stepBody 1 1000 800 (freeBody 500 719 2 1)) = - (1.4 * 0.6)"
proof -
  have h1: "\<not> dragging (freeBody 1 300 (- 5) 2)"
    by (simp add: freeBody_def)
  have h2: "\<not> dragging (freeBody 500 719 2 1)"
    by (simp add: freeBody_def)
  show ?thesis
    using h1 friction_only_on_bottom [OF h1, of 1000 1 800]
      friction_only_on_bottom [OF h2, of 1000 1 800]
    by (simp add: freeBody_def integrate_def collideSides_def collideTop_def
        gravity_def bounceFactor_def friction_def Let_def)
qed

subsection \<open>A second pointer-down during a drag\<close>

text \<open>
  C2 fails on the code. \<open>startDrag\<close> does not look at \<open>activeBody\<close>: a pointer-down on
  body 1 while body 0 is being dragged leaves both with \<open>dragging\<close> true. Here a first
  finger goes down on body 0 and a second one on body 1. When the second finger is
  lifted, \<open>endDrag\<close> releases body 1 only and removes the handlers; body 0 keeps
  \<open>dragging\<close> true with no active body, and the move and the release of the first
  finger and the next frame leave it so.
\<close>

theorem second_pointer_down_orphans_first:
  "dragging (bodies (run settled [PointerDown 0 (touchEvent 470 10)]) ! 0)
   \<and> \<not> dragging (bodies (run settled [PointerDown 0 (touchEvent 470 10)]) ! 1)
   \<and> activeBody (run settled [PointerDown 0 (touchEvent 470 10)]) = Some 0
   \<and> dragging (bodies (run settled [PointerDown 0 (touchEvent 470 10),
                                     PointerDown 1 secondFingerDown]) ! 0)
   \<and> dragging (bodies (run settled [PointerDown 0 (touchEvent 470 10),
                                     PointerDown 1 secondFingerDown]) ! 1)
   \<and> activeBody (run settled [PointerDown 0 (touchEvent 470 10),
                              PointerDown 1 secondFingerDown]) = Some 1
   \<and> dragging (bodies (run settled [PointerDown 0 (touchEvent 470 10),
                                     PointerDown 1 secondFingerDown,
                                     PointerUp (touchEvent 470 10),
                                     PointerMove (touchEvent 480 20),
                                     PointerUp touchEndEvent,
                                     Frame 5016.7 1000 800]) ! 0)
   \<and> \<not> dragging (bodies (run settled [PointerDown 0 (touchEvent 470 10),
                                     PointerDown 1 secondFingerDown,
                                     PointerUp (touchEvent 470 10),
                                     PointerMove (touchEvent 480 20),
                                     PointerUp touchEndEvent,
                                     Frame 5016.7 1000 800]) ! 1)
   \<and> activeBody (run settled [PointerDown 0 (touchEvent 470 10),
                              PointerDown 1 secondFingerDown,
                              PointerUp (touchEvent 470 10),
                              PointerMove (touchEvent 480 20),
                              PointerUp touchEndEvent,
                              Frame 5016.7 1000 800]) = None"
  by (simp add: settled_eq run_def startDrag_def doDrag_def endDrag_def getPointerPos_def
      touchEvent_def secondFingerDown_def touchEndEvent_def step_def stepBody_def phase_defs)

subsection \<open>Drag sessions\<close>

lemma run_snoc: "run s (ins @ [a]) = handle (run s ins) a"
  by (simp add: run_def)

lemma run_Cons: "run s (a # ins) = run (handle s a) ins"
  by (simp add: run_def)

lemma run_append: "run s (ins @ rest) = run (run s ins) rest"
  by (simp add: run_def)

lemma pointerTrail_append: "pointerTrail (ins @ rest) = pointerTrail ins @ pointerTrail rest"
  by (induction ins rule: pointerTrail.induct) simp_all

lemma pointerTrail_moves:
  "list_all isMoveOrFrame ins \<Longrightarrow> list_ex isMove ins \<Longrightarrow> pointerTrail ins \<noteq> []"
  by (induction ins rule: pointerTrail.induct) simp_all

lemma pointerTrail_frames: "list_all isFrame ins \<Longrightarrow> pointerTrail ins = []"
  by (induction ins rule: pointerTrail.induct) simp_all

lemma isFrame_isMoveOrFrame: "isFrame a \<Longrightarrow> isMoveOrFrame a"
  by (cases a) simp_all

lemma held_startDrag:
  "i < length (bodies s) \<Longrightarrow> held i [getPointerPos e] (startDrag e i s)"
  by (simp add: held_def startDrag_def Let_def)

lemma held_doDrag:
  "held i ps s \<Longrightarrow> ps \<noteq> [] \<Longrightarrow> held i (ps @ [getPointerPos e]) (handle s (PointerMove e))"
  by (cases ps) (simp_all add: held_def doDrag_def Let_def)

lemma held_step:
  assumes "held i ps s"
  shows "held i ps (handle s (Frame t w h))"
proof -
  from assms have i: "i < length (bodies s)" and d: "dragging (bodies s ! i)"
    by (simp_all add: held_def)
  obtain dt where "bodies (step t w h s) ! i = stepBody dt w h (bodies s ! i)"
    using step_nth_ex [OF i] by blast
  then have "bodies (step t w h s) ! i = applyTransform (bodies s ! i)"
    using d by (simp add: stepBody_dragging)
  then show ?thesis
    using assms by (simp add: held_def step_length step_activeBody step_handlersAttached
        applyTransform_def)
qed

text \<open>
  From the pointer-down on, through any moves and frames, the body stays held and its
  pointer velocity is the difference of the last two pointer positions, or zero while
  there has been no move.
\<close>

lemma held_session:
  assumes "i < length (bodies s)"
    and "list_all isMoveOrFrame ins"
  shows "held i (pointerTrail (PointerDown i e # ins)) (run s (PointerDown i e # ins))"
  using assms(2)
proof (induction ins rule: rev_induct)
  case Nil
  then show ?case using assms(1) by (simp add: run_def held_startDrag)
next
  case (snoc a ins)
  then have IH: "held i (pointerTrail (PointerDown i e # ins)) (run s (PointerDown i e # ins))"
    and a: "isMoveOrFrame a"
    by simp_all
  have r: "run s (PointerDown i e # ins @ [a]) = handle (run s (PointerDown i e # ins)) a"
    using run_snoc [of s "PointerDown i e # ins" a] by simp
  show ?case
  proof (cases a)
    case (PointerMove e')
    have "pointerTrail (PointerDown i e # ins @ [a])
          = pointerTrail (PointerDown i e # ins) @ [getPointerPos e']"
      using pointerTrail_append [of "PointerDown i e # ins" "[a]"] PointerMove by simp
    moreover have "pointerTrail (PointerDown i e # ins) \<noteq> []" by simp
    ultimately show ?thesis
      using held_doDrag [OF IH, of e'] r PointerMove by simp
  next
    case (Frame t w h)
    have "pointerTrail (PointerDown i e # ins @ [a]) = pointerTrail (PointerDown i e # ins)"
      using pointerTrail_append [of "PointerDown i e # ins" "[a]"] Frame by simp
    then show ?thesis
      using held_step [OF IH, of t w h] r Frame by simp
  qed (use a in simp_all)
qed

lemma held_endDrag:
  assumes "held i ps s"
  shows "vx (bodies (handle s (PointerUp e)) ! i) = vxPointer (bodies s ! i)
       \<and> vy (bodies (handle s (PointerUp e)) ! i) = vyPointer (bodies s ! i)
       \<and> \<not> dragging (bodies (handle s (PointerUp e)) ! i)
       \<and> i < length (bodies (handle s (PointerUp e)))"
  using assms by (simp add: held_def endDrag_def Let_def)

lemma frames_keep_vx_zero:
  "list_all isFrame ins \<Longrightarrow> i < length (bodies s) \<Longrightarrow> vx (bodies s ! i) = 0 \<Longrightarrow>
   vx (bodies (run s ins) ! i) = 0"
proof (induction ins arbitrary: s)
  case Nil
  then show ?case by (simp add: run_def)
next
  case (Cons a ins)
  then obtain t w h where a: "a = Frame t w h"
    by (cases a) simp_all
  obtain dt where "bodies (step t w h s) ! i = stepBody dt w h (bodies s ! i)"
    using step_nth_ex [OF Cons.prems(2)] by blast
  then have "vx (bodies (step t w h s) ! i) = 0"
    using Cons.prems(3) by (simp add: stepBody_vx_zero)
  moreover have "i < length (bodies (step t w h s))"
    using Cons.prems(2) by (simp add: step_length)
  ultimately have "vx (bodies (run (step t w h s) ins) ! i) = 0"
    using Cons.IH Cons.prems(1) by simp
  then show ?case
    using a by (simp add: run_Cons)
qed

text \<open>
  C6. A drag session is a pointer-down on body \<open>i\<close>, then pointer-moves and frames in
  any order, then a pointer-up. If there was at least one move, the velocity of the
  body after the pointer-up is the difference between the last two pointer positions
  of the session (the pointer-down position counts as the first); no earlier position
  enters. Moves through (10,10), (15,12), (25,20) and a release give (10, 8).
\<close>

theorem velocity_handoff:
  assumes "i < length (bodies s)"
    and "list_all isMoveOrFrame ins"
    and "list_ex isMove ins"
  shows "vx (bodies (run s (PointerDown i e0 # ins @ [PointerUp e1])) ! i)
           = fst (last (pointerTrail (PointerDown i e0 # ins)))
             - fst (last (butlast (pointerTrail (PointerDown i e0 # ins))))
       \<and> vy (bodies (run s (PointerDown i e0 # ins @ [PointerUp e1])) ! i)
           = snd (last (pointerTrail (PointerDown i e0 # ins)))
             - snd (last (butlast (pointerTrail (PointerDown i e0 # ins))))"
proof -
  let ?ps = "pointerTrail (PointerDown i e0 # ins)"
  let ?s = "run s (PointerDown i e0 # ins)"
  have h: "held i ?ps ?s"
    using assms(1,2) by (rule held_session)
  have "pointerTrail ins \<noteq> []"
    using assms(2,3) by (rule pointerTrail_moves)
  then have len: "2 \<le> length ?ps"
    by (cases "pointerTrail ins") simp_all
  have r: "run s (PointerDown i e0 # ins @ [PointerUp e1]) = handle ?s (PointerUp e1)"
    using run_snoc [of s "PointerDown i e0 # ins" "PointerUp e1"] by simp
  from h len have "vxPointer (bodies ?s ! i) = fst (last ?ps) - fst (last (butlast ?ps))"
    and "vyPointer (bodies ?s ! i) = snd (last ?ps) - snd (last (butlast ?ps))"
    by (simp_all add: held_def)
  then show ?thesis
    using held_endDrag [OF h, of e1] r by simp
qed

theorem velocity_handoff_witness:
  "1 < length (bodies settled)
   \<and> list_all isMoveOrFrame
       [PointerMove (touchEvent 10 10), PointerMove (touchEvent 15 12),
        Frame 5016.7 1000 800, PointerMove (touchEvent 25 20)]
   \<and> list_ex isMove
       [PointerMove (touchEvent 10 10), PointerMove (touchEvent 15 12),
        Frame 5016.7 1000 800, PointerMove (touchEvent 25 20)]
   \<and> vx (bodies (run settled
           (PointerDown 1 (touchEvent 8 9)
            # [PointerMove (touchEvent 10 10), PointerMove (touchEvent 15 12),
               Frame 5016.7 1000 800, PointerMove (touchEvent 25 20)]
            @ [PointerUp touchEndEvent])) ! 1) = 10
   \<and> vy (bodies (run settled
           (PointerDown 1 (touchEvent 8 9)
            # [PointerMove (touchEvent 10 10), PointerMove (touchEvent 15 12),
               Frame 5016.7 1000 800, PointerMove (touchEvent 25 20)]
            @ [PointerUp touchEndEvent])) ! 1) = 8"
proof -
  have h1: "1 < length (bodies settled)"
    by (simp add: settled_eq)
  have h2: "list_all isMoveOrFrame
       [PointerMove (touchEvent 10 10), PointerMove (touchEvent 15 12),
        Frame 5016.7 1000 800, PointerMove (touchEvent 25 20)]"
    by simp
  have h3: "list_ex isMove
       [PointerMove (touchEvent 10 10), PointerMove (touchEvent 15 12),
        Frame 5016.7 1000 800, PointerMove (touchEvent 25 20)]"
    by simp
  show ?thesis
    using h1 h2 h3
      velocity_handoff [OF h1 h2 h3, of "touchEvent 8 9" touchEndEvent]
    by (simp add: getPointerPos_def touchEvent_def)
qed

lemma step_nth_dt:
  "i < length (bodies s) \<Longrightarrow>
   bodies (step t w h s) ! i = stepBody (frameDt s t) w h (bodies s ! i)"
  by (simp add: step_def frameDt_def Let_def)

lemma held_frames:
  "list_all isFrame ins \<Longrightarrow> held i ps s \<Longrightarrow>
   held i ps (run s ins)
   \<and> x (bodies (run s ins) ! i) = x (bodies s ! i)
   \<and> y (bodies (run s ins) ! i) = y (bodies s ! i)"
proof (induction ins arbitrary: s)
  case Nil
  then show ?case by (simp add: run_def)
next
  case (Cons a ins)
  then obtain t w h where a: "a = Frame t w h"
    by (cases a) simp_all
  from Cons.prems(2) have i: "i < length (bodies s)" and d: "dragging (bodies s ! i)"
    by (simp_all add: held_def)
  have h: "held i ps (step t w h s)"
    using held_step [OF Cons.prems(2), of t w h] by simp
  have "bodies (step t w h s) ! i = applyTransform (bodies s ! i)"
    using step_nth_dt [OF i, of t w h] d by (simp add: stepBody_dragging)
  then have p: "x (bodies (step t w h s) ! i) = x (bodies s ! i)"
    "y (bodies (step t w h s) ! i) = y (bodies s ! i)"
    by (simp_all add: applyTransform_def)
  show ?case
    using Cons.IH [OF _ h] Cons.prems(1) p a by (simp add: run_Cons)
qed

lemma held_released:
  assumes "held i ps s"
  shows "\<not> dragging (bodies (handle s (PointerUp e)) ! i)"
    and "activeBody (handle s (PointerUp e)) = None"
    and "\<not> handlersAttached (handle s (PointerUp e))"
    and "vx (bodies (handle s (PointerUp e)) ! i) = vxPointer (bodies s ! i)"
    and "vy (bodies (handle s (PointerUp e)) ! i) = vyPointer (bodies s ! i)"
    and "x (bodies (handle s (PointerUp e)) ! i) = x (bodies s ! i)"
    and "y (bodies (handle s (PointerUp e)) ! i) = y (bodies s ! i)"
    and "i < length (bodies (handle s (PointerUp e)))"
  using assms by (simp_all add: held_def endDrag_def Let_def)

lemma startDrag_position:
  "i < length (bodies s) \<Longrightarrow>
   x (bodies (startDrag e i s) ! i) = x (bodies s ! i)
   \<and> y (bodies (startDrag e i s) ! i) = y (bodies s ! i)"
  by (simp add: startDrag_def Let_def)

text \<open>One frame of a free body that has no velocity.\<close>

lemma stepBody_at_rest:
  assumes "\<not> dragging b" and "vx b = 0" and "vy b = 0"
  shows "x (stepBody dt w h b)
           = (if x b < 0 then 0 else if x b + width b > w then w - width b else x b)"
    and "vx (stepBody dt w h b) = 0"
    and "y (stepBody dt w h b)
           = (if (if y b + gravity * dt * dt < 0 then 0 else y b + gravity * dt * dt)
                   + height b > h
              then h - height b
              else if y b + gravity * dt * dt < 0 then 0
              else y b + gravity * dt * dt)"
    and "vy (stepBody dt w h b)
           = gravity * dt
             * (if y b + gravity * dt * dt < 0 then - bounceFactor else 1)
             * (if (if y b + gravity * dt * dt < 0 then 0 else y b + gravity * dt * dt)
                     + height b > h
                then - bounceFactor else 1)"
  using assms by (simp_all add: stepBody_def phase_defs)

text \<open>
  C10. A drag session with no pointer-move between the pointer-down and the pointer-up
  (frames may fall in between) releases the body where it was picked up, with velocity
  (0, 0): after the pointer-up the body is no longer dragged, nothing is the active
  body and the handlers are removed. The next frame integrates it again: gravity alone
  gives it \<open>vy = gravity * dt\<close> and moves it down by \<open>gravity * dt * dt\<close>, up to the
  collision with the top or bottom edge; \<open>vx\<close> is 0 and \<open>x\<close> changes only if the body
  lies across a side wall. In all later frames \<open>vx\<close> stays 0.
\<close>

theorem release_without_move:
  assumes "i < length (bodies s)"
    and "list_all isFrame ins"
    and "list_all isFrame later"
    and "r = run s (PointerDown i e0 # ins @ [PointerUp e1])"
    and "dt = frameDt r t"
    and "y1 = y (bodies s ! i) + gravity * dt * dt"
  shows "\<not> dragging (bodies r ! i) \<and> activeBody r = None \<and> \<not> handlersAttached r
       \<and> vx (bodies r ! i) = 0 \<and> vy (bodies r ! i) = 0
       \<and> x (bodies r ! i) = x (bodies s ! i) \<and> y (bodies r ! i) = y (bodies s ! i)
       \<and> x (bodies (handle r (Frame t w h)) ! i)
           = (if x (bodies s ! i) < 0 then 0
              else if x (bodies s ! i) + width (bodies r ! i) > w
                   then w - width (bodies r ! i)
              else x (bodies s ! i))
       \<and> vx (bodies (handle r (Frame t w h)) ! i) = 0
       \<and> y (bodies (handle r (Frame t w h)) ! i)
           = (if (if y1 < 0 then 0 else y1) + height (bodies r ! i) > h
              then h - height (bodies r ! i)
              else if y1 < 0 then 0 else y1)
       \<and> vy (bodies (handle r (Frame t w h)) ! i)
           = gravity * dt
             * (if y1 < 0 then - bounceFactor else 1)
             * (if (if y1 < 0 then 0 else y1) + height (bodies r ! i) > h
                then - bounceFactor else 1)
       \<and> vx (bodies (run r later) ! i) = 0"
proof -
  let ?ps = "pointerTrail (PointerDown i e0 # ins)"
  let ?d = "run s [PointerDown i e0]"
  let ?s = "run s (PointerDown i e0 # ins)"
  have d: "held i [getPointerPos e0] ?d"
    using assms(1) by (simp add: run_def held_startDrag)
  have dp: "x (bodies ?d ! i) = x (bodies s ! i)" "y (bodies ?d ! i) = y (bodies s ! i)"
    using startDrag_position [OF assms(1), of e0] by (simp_all add: run_def)
  have "?s = run ?d ins"
    using run_append [of s "[PointerDown i e0]" ins] by simp
  then have h: "held i [getPointerPos e0] ?s"
    and sp: "x (bodies ?s ! i) = x (bodies s ! i)" "y (bodies ?s ! i) = y (bodies s ! i)"
    using held_frames [OF assms(2) d] dp by simp_all
  from h have z: "vxPointer (bodies ?s ! i) = 0" "vyPointer (bodies ?s ! i) = 0"
    by (simp_all add: held_def)
  have r: "r = handle ?s (PointerUp e1)"
    using run_snoc [of s "PointerDown i e0 # ins" "PointerUp e1"] assms(4) by simp
  have rel: "\<not> dragging (bodies r ! i)" "activeBody r = None" "\<not> handlersAttached r"
    and v: "vx (bodies r ! i) = 0" "vy (bodies r ! i) = 0"
    and p: "x (bodies r ! i) = x (bodies s ! i)" "y (bodies r ! i) = y (bodies s ! i)"
    and len: "i < length (bodies r)"
    using held_released [OF h, of e1] r z sp by simp_all
  have f: "bodies (handle r (Frame t w h)) ! i = stepBody dt w h (bodies r ! i)"
    using step_nth_dt [OF len, of t w h] assms(5) by simp
  have n: "x (bodies (handle r (Frame t w h)) ! i)
           = (if x (bodies s ! i) < 0 then 0
              else if x (bodies s ! i) + width (bodies r ! i) > w
                   then w - width (bodies r ! i)
              else x (bodies s ! i))"
    "vx (bodies (handle r (Frame t w h)) ! i) = 0"
    "y (bodies (handle r (Frame t w h)) ! i)
           = (if (if y1 < 0 then 0 else y1) + height (bodies r ! i) > h
              then h - height (bodies r ! i)
              else if y1 < 0 then 0 else y1)"
    "vy (bodies (handle r (Frame t w h)) ! i)
           = gravity * dt
             * (if y1 < 0 then - bounceFactor else 1)
             * (if (if y1 < 0 then 0 else y1) + height (bodies r ! i) > h
                then - bounceFactor else 1)"
    unfolding f assms(6) p [symmetric]
    using stepBody_at_rest [OF rel(1) v, of dt w h] by simp_all
  have l: "vx (bodies (run r later) ! i) = 0"
    using assms(3) len v(1) by (rule frames_keep_vx_zero)
  from rel v p n l show ?thesis
    by blast
qed

theorem release_without_move_witness:
  "1 < length (bodies settled)
   \<and> list_all isFrame [Frame 5016.7 1000 800]
   \<and> list_all isFrame [Frame 5033.4 1000 800, Frame 5050.1 1000 800]
   \<and> frameDt (run settled (PointerDown 1 (mouseEvent 10 10) # [Frame 5016.7 1000 800]
                            @ [PointerUp (mouseEvent 10 10)])) 5033.4 = 1
   \<and> vx (bodies settled ! 1) = 1 / 4
   \<and> \<not> dragging (bodies (run settled (PointerDown 1 (mouseEvent 10 10)
        # [Frame 5016.7 1000 800] @ [PointerUp (mouseEvent 10 10)])) ! 1)
   \<and> vx (bodies (run settled (PointerDown 1 (mouseEvent 10 10)
        # [Frame 5016.7 1000 800] @ [PointerUp (mouseEvent 10 10)])) ! 1) = 0
   \<and> vy (bodies (run settled (PointerDown 1 (mouseEvent 10 10)
        # [Frame 5016.7 1000 800] @ [PointerUp (mouseEvent 10 10)])) ! 1) = 0
   \<and> x (bodies (handle (run settled (PointerDown 1 (mouseEvent 10 10)
        # [Frame 5016.7 1000 800] @ [PointerUp (mouseEvent 10 10)]))
        (Frame 5033.4 1000 800)) ! 1) = 0
   \<and> vx (bodies (handle (run settled (PointerDown 1 (mouseEvent 10 10)
        # [Frame 5016.7 1000 800] @ [PointerUp (mouseEvent 10 10)]))
        (Frame 5033.4 1000 800)) ! 1) = 0
   \<and> y (bodies (handle (run settled (PointerDown 1 (mouseEvent 10 10)
        # [Frame 5016.7 1000 800] @ [PointerUp (mouseEvent 10 10)]))
        (Frame 5033.4 1000 800)) ! 1) = 0.4
   \<and> vy (bodies (handle (run settled (PointerDown 1 (mouseEvent 10 10)
        # [Frame 5016.7 1000 800] @ [PointerUp (mouseEvent 10 10)]))
        (Frame 5033.4 1000 800)) ! 1) = 0.4
   \<and> vx (bodies (run (run settled (PointerDown 1 (mouseEvent 10 10)
        # [Frame 5016.7 1000 800] @ [PointerUp (mouseEvent 10 10)]))
        [Frame 5033.4 1000 800, Frame 5050.1 1000 800]) ! 1) = 0"
proof -
  let ?r = "run settled (PointerDown 1 (mouseEvent 10 10) # [Frame 5016.7 1000 800]
                         @ [PointerUp (mouseEvent 10 10)])"
  have h1: "1 < length (bodies settled)"
    by (simp add: settled_eq)
  have h2: "list_all isFrame [Frame 5016.7 1000 800]"
    by simp
  have h3: "list_all isFrame [Frame 5033.4 1000 800, Frame 5050.1 1000 800]"
    by simp
  have r: "lastTimestamp ?r = Some 5016.7" "width (bodies ?r ! 1) = 80"
    "height (bodies ?r ! 1) = 80"
    by (simp_all add: settled_eq run_def startDrag_def endDrag_def step_def stepBody_def
        applyTransform_def getPointerPos_def mouseEvent_def Let_def)
  have dt: "frameDt ?r 5033.4 = 1"
    unfolding frameDt_def r by simp
  have s: "x (bodies settled ! 1) = 0" "y (bodies settled ! 1) = 0"
    "vx (bodies settled ! 1) = 1 / 4"
    by (simp_all add: settled_eq)
  note rel = release_without_move [OF h1 h2 h3 refl refl refl,
        of "mouseEvent 10 10" "mouseEvent 10 10" "5033.4" 1000 800]
  show ?thesis
    using h1 h2 h3 dt s(3) rel [unfolded dt s r]
    by (simp add: gravity_def bounceFactor_def)
qed

subsection \<open>A body on the bottom edge\<close>









subsection \<open>From one bottom contact to the next\<close>














subsection \<open>Events without a drag target\<close>

text \<open>
  C9. A pointer-move or pointer-up event that arrives while there is no active drag
  target changes nothing: \<open>doDrag\<close> and \<open>endDrag\<close> return the state they were given.
  Neither handler has a failing path; both are total functions of the state.
\<close>

theorem no_active_body_noop:
  "activeBody s = None \<Longrightarrow> doDrag e s = s \<and> endDrag e s = s"
  by (simp add: doDrag_def endDrag_def)

theorem no_active_body_noop_witness:
  "activeBody settled = None
   \<and> doDrag (mouseEvent 30 40) settled = settled
   \<and> endDrag (mouseEvent 30 40) settled = settled"
proof -
  have h: "activeBody settled = None"
    by (simp add: settled_eq)
  show ?thesis
    using h no_active_body_noop [OF h, of "mouseEvent 30 40"] by simp
qed

end
